theory Spec2Isabelle
  imports Complex_Main
begin

section \<open>The 2D laser range sensor of \<^verbatim>\<open>laser2D.py\<close>\<close>

text \<open>
  The class \<^verbatim>\<open>Laser2D\<close> simulates a planar laser scanner. Its numbers are Python and
  numpy floats; they are idealised here as real numbers, so rounding, signed zeros, infinities
  and NaN are outside the model. Every comparison, branch and arithmetic expression below is
  the one of the source, read over the reals.
\<close>

subsection \<open>Data\<close>

text \<open>
  The map is a numpy array with two rows (x and y) and one column per point; it is modelled
  as the list of its columns. The pose is a column vector \<open>(x, y, theta)\<close>. The noise
  covariance is a 2 x 2 matrix, given by its two rows. An observation \<open>z\<close> is a
  two-dimensional array, modelled as the list of its rows; \<^verbatim>\<open>np.array([])\<close> is the
  empty list.
\<close>

type_synonym point = "real \<times> real"
type_synonym map2d = "point list"
type_synonym mat22 = "(real \<times> real) \<times> (real \<times> real)"
type_synonym array2d = "real list list"

record pose3 =
  pose_x :: real
  pose_y :: real
  pose_theta :: real

record laser2d =
  FOV :: real
  resolution :: real
  max_distance :: real
  noise_cov :: mat22
  pose :: pose3
  last_z :: array2d

text \<open>
  The two ways the body of \<^verbatim>\<open>take_observation\<close> can raise before its loop:
  the division \<^verbatim>\<open>self.FOV / self.resolution\<close> by zero, and
  \<^verbatim>\<open>np.zeros([2,n_beams])\<close> with a negative dimension.
\<close>

datatype error = ZeroDivisionError | ValueError

text \<open>
  The random source: draw number \<open>k\<close> of a call is the \<open>k\<close>-th standard normal sample.
  \<^verbatim>\<open>np.random.normal(loc, scale)\<close> is \<open>loc + scale * sample\<close>.
\<close>

type_synonym noise = "nat \<Rightarrow> real"

definition normal :: "real \<Rightarrow> real \<Rightarrow> real \<Rightarrow> real" where
  "normal loc scale sample = loc + scale * sample"

definition cov00 :: "mat22 \<Rightarrow> real" where
  "cov00 c = fst (fst c)"

definition cov11 :: "mat22 \<Rightarrow> real" where
  "cov11 c = snd (snd c)"

subsection \<open>Constructor and \<^verbatim>\<open>set_pose\<close>\<close>

definition init :: "real \<Rightarrow> real \<Rightarrow> real \<Rightarrow> mat22 \<Rightarrow> pose3 \<Rightarrow> laser2d" where
  "init fov res maxd cov p =
     \<lparr>FOV = fov, resolution = res, max_distance = maxd, noise_cov = cov, pose = p, last_z = []\<rparr>"

definition set_pose :: "laser2d \<Rightarrow> pose3 \<Rightarrow> laser2d" where
  "set_pose s p = s\<lparr>pose := p\<rparr>"

subsection \<open>Geometry helpers\<close>

text \<open>\<^verbatim>\<open>math.atan2(y, x)\<close> on the reals, with values in \<open>(-pi, pi]\<close>.\<close>

definition atan2 :: "real \<Rightarrow> real \<Rightarrow> real" where
  "atan2 y x =
     (if 0 < x then arctan (y / x)
      else if x < 0 then (if 0 \<le> y then arctan (y / x) + pi else arctan (y / x) - pi)
      else if 0 < y then pi / 2
      else if y < 0 then - (pi / 2)
      else 0)"

text \<open>The local function \<^verbatim>\<open>det(a, b)\<close>.\<close>

definition det :: "real \<times> real \<Rightarrow> real \<times> real \<Rightarrow> real" where
  "det a b = fst a * snd b - snd a * fst b"

text \<open>The two-line "Angle warp" that the source applies to \<open>phi\<close> and to \<open>phi_m\<close>.\<close>

definition angle_warp :: "real \<Rightarrow> real" where
  "angle_warp phi =
     (if phi > pi then phi - 2 * pi
      else if phi < - pi then phi + 2 * pi
      else phi)"

text \<open>\<^verbatim>\<open>np.sqrt(pow(a[0]-b[0],2)+pow(a[1]-b[1],2))\<close>.\<close>

definition distance :: "point \<Rightarrow> point \<Rightarrow> real" where
  "distance a b = sqrt ((fst a - fst b)\<^sup>2 + (snd a - snd b)\<^sup>2)"

text \<open>
  \<^verbatim>\<open>seg_distance\<close>: the lengths of the segments between \<^verbatim>\<open>map[:,:-1]\<close> and
  \<^verbatim>\<open>map[:,1:]\<close>.
\<close>

definition seg_distance :: "map2d \<Rightarrow> real list" where
  "seg_distance m = map (\<lambda>(a, b). distance a b) (zip (butlast m) (tl m))"

subsection \<open>One segment against one beam\<close>

text \<open>
  Lines 66 to 79: the intersection of the line through the segment ends \<open>a\<close>, \<open>b\<close> with the
  line through the sensor position \<open>p\<close> and the beam end \<open>e\<close>. \<open>None\<close> is the
  \<^verbatim>\<open>continue\<close> taken when \<^verbatim>\<open>div == 0\<close>; the source's \<^verbatim>\<open>div\<close> is \<open>div'\<close> here.
\<close>

text \<open>Line 73 alone: the determinant that line 74 compares with 0.\<close>

definition line_div :: "point \<Rightarrow> point \<Rightarrow> point \<Rightarrow> point \<Rightarrow> real" where
  "line_div a b p e =
     (let xdiff = (fst a - fst b, fst p - fst e);
          ydiff = (snd a - snd b, snd p - snd e)
      in det xdiff ydiff)"

text \<open>Lines 66 to 79 together.\<close>

definition intersection :: "point \<Rightarrow> point \<Rightarrow> point \<Rightarrow> point \<Rightarrow> point option" where
  "intersection a b p e =
     (let xdiff = (fst a - fst b, fst p - fst e);
          ydiff = (snd a - snd b, snd p - snd e);
          div' = det xdiff ydiff
      in if div' = 0 then None
         else
           let de = (det a b, det p e);
               x = det de xdiff / div';
               y = det de ydiff / div'
           in Some (x, y))"

text \<open>Lines 85 to 90: the membership test with the corner threshold.\<close>

definition in_segment :: "point \<Rightarrow> point \<Rightarrow> real \<Rightarrow> point \<Rightarrow> bool" where
  "in_segment a b seg_d q =
     (let d1 = distance a q;
          d2 = distance b q;
          th_for_corners = 0.05
      in d1 < seg_d + th_for_corners \<and> d2 < seg_d + th_for_corners)"

text \<open>Lines 94 to 98: the bearing \<open>phi_m\<close> of the intersection seen from the sensor.\<close>

definition phi_m :: "point \<Rightarrow> point \<Rightarrow> real" where
  "phi_m p q = angle_warp (atan2 (0 - (fst q - fst p)) ((snd q - snd p) - 0) + 90 * pi / 180)"

text \<open>
  The body of the loop over \<open>i_line\<close>: \<open>d\<close> comes in and the (possibly lowered) \<open>d\<close>
  goes out.
\<close>

definition check_line :: "real \<Rightarrow> point \<Rightarrow> point \<Rightarrow> point \<Rightarrow> point \<Rightarrow> real \<Rightarrow> real \<Rightarrow> real" where
  "check_line phi p e a b seg_d d =
     (case intersection a b p e of
        None \<Rightarrow> d
      | Some q \<Rightarrow>
          let d_to_intersect = distance p q
          in if in_segment a b seg_d q then
               if sgn phi = sgn (phi_m p q) then
                 if d_to_intersect < d then d_to_intersect else d
               else d
             else d)"

subsection \<open>One beam\<close>

definition n_beams :: "laser2d \<Rightarrow> int" where
  "n_beams s = \<lfloor>FOV s / resolution s\<rfloor> + 1"

text \<open>Line 50: the beam orientation before the angle warp.\<close>

definition beam_angle :: "laser2d \<Rightarrow> nat \<Rightarrow> real" where
  "beam_angle s i_beam = real i_beam * resolution s - FOV s / 2 + pose_theta (pose s)"

text \<open>Lines 53 and 54: \<open>phi\<close> as the rest of the iteration uses it.\<close>

definition beam_phi :: "laser2d \<Rightarrow> nat \<Rightarrow> real" where
  "beam_phi s i_beam = angle_warp (beam_angle s i_beam)"

text \<open>Lines 57 and 58: the point \<open>(x_beam, y_beam)\<close>.\<close>

definition beam_end :: "laser2d \<Rightarrow> nat \<Rightarrow> point" where
  "beam_end s i_beam =
     (let phi = beam_phi s i_beam
      in (pose_x (pose s) + max_distance s * cos phi,
          pose_y (pose s) + max_distance s * sin phi))"

text \<open>Lines 60 to 104: the value of \<open>d\<close> when the loop over the segments ends.\<close>

definition beam_distance :: "laser2d \<Rightarrow> map2d \<Rightarrow> nat \<Rightarrow> real" where
  "beam_distance s m i_beam =
     (let phi = beam_phi s i_beam;
          p = (pose_x (pose s), pose_y (pose s));
          e = beam_end s i_beam
      in fold (\<lambda>i_line d.
                 check_line phi p e (m ! i_line) (m ! (i_line + 1)) (seg_distance m ! i_line) d)
           [0..<length m - 1] (max_distance s))"

text \<open>
  Lines 107 and 108: the two writes into \<open>z\<close> that end the iteration of beam \<open>i_beam\<close>.
  The beam makes draw \<open>2 * i_beam\<close> for its range and draw \<open>2 * i_beam + 1\<close> for its
  bearing.
\<close>

definition store_beam :: "laser2d \<Rightarrow> map2d \<Rightarrow> noise \<Rightarrow> nat \<Rightarrow> array2d \<Rightarrow> array2d" where
  "store_beam s m g i_beam z =
     (let d = beam_distance s m i_beam;
          z0 = z[0 := (z ! 0)[i_beam := d + normal 0 (sqrt (cov00 (noise_cov s))) (g (2 * i_beam))]]
      in z0[1 := (z0 ! 1)[i_beam := real i_beam * resolution s - FOV s / 2
                                 + normal 0 (sqrt (cov11 (noise_cov s))) (g (2 * i_beam + 1))]])"

subsection \<open>\<^verbatim>\<open>take_observation\<close>\<close>

text \<open>\<^verbatim>\<open>np.zeros([rows, cols])\<close>.\<close>

definition zeros :: "nat \<Rightarrow> nat \<Rightarrow> array2d" where
  "zeros rows cols = replicate rows (replicate cols 0)"

definition take_observation :: "laser2d \<Rightarrow> map2d \<Rightarrow> noise \<Rightarrow> error + array2d" where
  "take_observation s m g =
     (if resolution s = 0 then Inl ZeroDivisionError
      else if n_beams s < 0 then Inl ValueError
      else Inr (fold (store_beam s m g) [0..<nat (n_beams s)] (zeros 2 (nat (n_beams s)))))"

subsection \<open>The call on the heap\<close>

text \<open>
  To say what a call writes, the arrays are put in a store. The heap is the list of the
  numpy arrays allocated so far, and the address of an array is its index; a new array goes
  to the end. A one-dimensional array is a single row. The sensor object holds its three
  floats as values and its three arrays (\<^verbatim>\<open>noise_cov\<close>, \<^verbatim>\<open>pose\<close>, \<^verbatim>\<open>last_z\<close>) as
  addresses, as a Python object holds references; the map argument is an address too. The
  pose is the column vector of the docstring, an array of three rows of one entry, so
  \<^verbatim>\<open>self.pose[2]\<close> is an array and so is \<open>phi\<close>.
\<close>

type_synonym addr = nat
type_synonym heap = "array2d list"

record laser2d_obj =
  obj_FOV :: real
  obj_resolution :: real
  obj_max_distance :: real
  obj_noise_cov :: addr
  obj_pose :: addr
  obj_last_z :: addr

record world =
  obj :: laser2d_obj
  mem :: heap

definition alloc :: "array2d \<Rightarrow> heap \<Rightarrow> addr \<times> heap" where
  "alloc a h = (length h, h @ [a])"

definition read_cell :: "heap \<Rightarrow> addr \<Rightarrow> nat \<Rightarrow> nat \<Rightarrow> real" where
  "read_cell h a r c = h ! a ! r ! c"

text \<open>An assignment \<^verbatim>\<open>arr[r, c] = v\<close> into the array at address \<open>a\<close>.\<close>

definition write_cell :: "addr \<Rightarrow> nat \<Rightarrow> nat \<Rightarrow> real \<Rightarrow> heap \<Rightarrow> heap" where
  "write_cell a r c v h = h[a := (h ! a)[r := (h ! a ! r)[c := v]]]"

text \<open>
  The constructor stores the references it is given and allocates the empty array for
  \<^verbatim>\<open>last_z\<close>.
\<close>

definition construct :: "real \<Rightarrow> real \<Rightarrow> real \<Rightarrow> addr \<Rightarrow> addr \<Rightarrow> heap \<Rightarrow> world" where
  "construct fov res maxd cov_ref pose_ref h =
     (let (last_z_ref, h1) = alloc [] h
      in \<lparr>obj = \<lparr>obj_FOV = fov, obj_resolution = res, obj_max_distance = maxd,
                 obj_noise_cov = cov_ref, obj_pose = pose_ref, obj_last_z = last_z_ref\<rparr>,
          mem = h1\<rparr>)"

text \<open>What the sensor object and the map address stand for: the values of the first model.\<close>

definition sensor_of :: "laser2d_obj \<Rightarrow> heap \<Rightarrow> laser2d" where
  "sensor_of self h =
     \<lparr>FOV = obj_FOV self, resolution = obj_resolution self,
      max_distance = obj_max_distance self,
      noise_cov = ((read_cell h (obj_noise_cov self) 0 0, read_cell h (obj_noise_cov self) 0 1),
                   (read_cell h (obj_noise_cov self) 1 0, read_cell h (obj_noise_cov self) 1 1)),
      pose = \<lparr>pose_x = read_cell h (obj_pose self) 0 0,
               pose_y = read_cell h (obj_pose self) 1 0,
               pose_theta = read_cell h (obj_pose self) 2 0\<rparr>,
      last_z = h ! obj_last_z self\<rparr>"

definition map_of_heap :: "heap \<Rightarrow> addr \<Rightarrow> map2d" where
  "map_of_heap h m_ref = zip (h ! m_ref ! 0) (h ! m_ref ! 1)"

text \<open>
  The arrays a call reads exist and have the shapes the docstrings name: the pose 3 x 1, the
  covariance 2 x 2, the map two rows of one length.
\<close>

definition wf_world :: "world \<Rightarrow> addr \<Rightarrow> bool" where
  "wf_world w m_ref =
     (obj_pose (obj w) < length (mem w) \<and> obj_noise_cov (obj w) < length (mem w)
      \<and> obj_last_z (obj w) < length (mem w) \<and> m_ref < length (mem w)
      \<and> map length (mem w ! obj_pose (obj w)) = [1, 1, 1]
      \<and> map length (mem w ! obj_noise_cov (obj w)) = [2, 2]
      \<and> length (mem w ! m_ref) = 2
      \<and> length (mem w ! m_ref ! 0) = length (mem w ! m_ref ! 1))"

text \<open>Lines 53 and 54 on the array \<open>phi\<close>: \<^verbatim>\<open>phi -= 2*np.pi\<close> writes in place.\<close>

definition warp_in_place :: "addr \<Rightarrow> heap \<Rightarrow> heap" where
  "warp_in_place phi_ref h =
     (if read_cell h phi_ref 0 0 > pi
        then write_cell phi_ref 0 0 (read_cell h phi_ref 0 0 - 2 * pi) h
      else if read_cell h phi_ref 0 0 < - pi
        then write_cell phi_ref 0 0 (read_cell h phi_ref 0 0 + 2 * pi) h
      else h)"

text \<open>
  Lines 57 to 104: they read \<open>phi\<close>, the pose and the map from the heap and assign only to
  local names (\<open>x_beam\<close>, \<open>y_beam\<close>, \<open>d\<close>, \<open>xdiff\<close>, ..., \<open>phi_m\<close>), each bound to a new
  value. What is left for the rest of the iteration is \<open>d\<close>.
\<close>

definition scan_lines :: "laser2d_obj \<Rightarrow> heap \<Rightarrow> addr \<Rightarrow> real list \<Rightarrow> addr \<Rightarrow> real" where
  "scan_lines self h m_ref seg_d phi_ref =
     (let phi = read_cell h phi_ref 0 0;
          p = (read_cell h (obj_pose self) 0 0, read_cell h (obj_pose self) 1 0);
          e = (fst p + obj_max_distance self * cos phi,
               snd p + obj_max_distance self * sin phi);
          m = map_of_heap h m_ref
      in fold (\<lambda>i_line d.
                 check_line phi p e (m ! i_line) (m ! (i_line + 1)) (seg_d ! i_line) d)
           [0..<length m - 1] (obj_max_distance self))"

text \<open>
  One iteration of the loop over the beams (lines 50 to 108): a new array for \<open>phi\<close>, its
  warp in place, the scan of the segments, and the two writes into the array \<open>z\<close>.
\<close>

definition beam_iteration :: "addr \<Rightarrow> addr \<Rightarrow> real list \<Rightarrow> noise \<Rightarrow> nat \<Rightarrow> world \<Rightarrow> world" where
  "beam_iteration m_ref z_ref seg_d g i_beam w =
     (let self = obj w;
          (phi_ref, h1) =
             alloc [[real i_beam * obj_resolution self - obj_FOV self / 2
                      + read_cell (mem w) (obj_pose self) 2 0]] (mem w);
          h2 = warp_in_place phi_ref h1;
          d = scan_lines self h2 m_ref seg_d phi_ref;
          h3 = write_cell z_ref 0 i_beam
                 (d + normal 0 (sqrt (read_cell h2 (obj_noise_cov self) 0 0)) (g (2 * i_beam))) h2;
          h4 = write_cell z_ref 1 i_beam
                 (real i_beam * obj_resolution self - obj_FOV self / 2
                    + normal 0 (sqrt (read_cell h3 (obj_noise_cov self) 1 1)) (g (2 * i_beam + 1)))
                 h3
      in w\<lparr>mem := h4\<rparr>)"

text \<open>
  The method (lines 42 to 111): the result is the error raised or the address of \<open>z\<close>, with
  the world the call leaves. An exception leaves before anything is allocated.
\<close>

definition take_observation_heap :: "addr \<Rightarrow> noise \<Rightarrow> world \<Rightarrow> (error + addr) \<times> world" where
  "take_observation_heap m_ref g w =
     (let self = obj w
      in if obj_resolution self = 0 then (Inl ZeroDivisionError, w)
         else
           let n = \<lfloor>obj_FOV self / obj_resolution self\<rfloor> + 1;
               seg_d = seg_distance (map_of_heap (mem w) m_ref)
           in if n < 0 then (Inl ValueError, w)
              else
                let (z_ref, h1) = alloc (zeros 2 (nat n)) (mem w)
                in (Inr z_ref,
                    fold (beam_iteration m_ref z_ref seg_d g) [0..<nat n] (w\<lparr>mem := h1\<rparr>)))"

subsection \<open>The closest valid hit, as the specification words it\<close>

text \<open>
  The specification describes the range of a beam without the loop: take every segment whose
  line meets the line of the beam, keep the intersection points that pass the
  segment-membership check and the direction check, and report the smallest of
  \<open>max_distance\<close> and their distances from the sensor position.
\<close>

definition valid_hit :: "real \<Rightarrow> point \<Rightarrow> point \<Rightarrow> point \<Rightarrow> point \<Rightarrow> real \<Rightarrow> real option" where
  "valid_hit phi p e a b seg_d =
     (case intersection a b p e of
        None \<Rightarrow> None
      | Some q \<Rightarrow>
          if in_segment a b seg_d q \<and> sgn phi = sgn (phi_m p q) then Some (distance p q)
          else None)"

definition valid_hits :: "laser2d \<Rightarrow> map2d \<Rightarrow> nat \<Rightarrow> real list" where
  "valid_hits s m i_beam =
     List.map_filter
       (\<lambda>i_line. valid_hit (beam_phi s i_beam) (pose_x (pose s), pose_y (pose s))
                    (beam_end s i_beam) (m ! i_line) (m ! (i_line + 1)) (seg_distance m ! i_line))
       [0..<length m - 1]"

definition closest_hit :: "laser2d \<Rightarrow> map2d \<Rightarrow> nat \<Rightarrow> real" where
  "closest_hit s m i_beam = Min (set (max_distance s # valid_hits s m i_beam))"

subsection \<open>Concrete inputs\<close>

definition zero_cov :: mat22 where
  "zero_cov = ((0, 0), (0, 0))"

definition origin_pose :: pose3 where
  "origin_pose = \<lparr>pose_x = 0, pose_y = 0, pose_theta = 0\<rparr>"

text \<open>A half-turn scanner with three beams, facing a wall from \<open>(5, -5)\<close> to \<open>(5, 5)\<close>.\<close>

definition scenario_sensor :: laser2d where
  "scenario_sensor = init pi (pi / 2) 10 zero_cov origin_pose"

definition scenario_map :: map2d where
  "scenario_map = [(5, - 5), (5, 5)]"

text \<open>
  The same scenario on the heap: the pose, the covariance and the map are allocated by the
  caller at addresses 0, 1 and 2, and the constructor puts \<^verbatim>\<open>last_z\<close> at address 3.
\<close>

definition scenario_heap :: heap where
  "scenario_heap = [[[0], [0], [0]], [[0, 0], [0, 0]], [[5, 5], [- 5, 5]]]"

definition scenario_world :: world where
  "scenario_world = construct pi (pi / 2) 10 1 0 scenario_heap"

text \<open>A full-turn scanner: its first beam points at \<open>- pi\<close>.\<close>

definition full_turn_sensor :: laser2d where
  "full_turn_sensor = init (2 * pi) (pi / 2) 10 zero_cov origin_pose"

section \<open>Angles\<close>

lemma atan2_bounds: "- pi < atan2 y x \<and> atan2 y x \<le> pi"
proof -
  have lo: "- (pi / 2) < arctan (y / x)" by (rule arctan_lbound)
  have hi: "arctan (y / x) < pi / 2" by (rule arctan_ubound)
  have pp: "0 < pi" by simp
  show ?thesis
  proof (cases "0 < x")
    case True
    then have "atan2 y x = arctan (y / x)" by (simp add: atan2_def)
    with lo hi pp show ?thesis by linarith
  next
    case False
    show ?thesis
    proof (cases "x < 0")
      case xneg: True
      show ?thesis
      proof (cases "0 \<le> y")
        case True
        with xneg have "y / x \<le> 0" by (simp add: divide_nonneg_neg)
        then have "arctan (y / x) \<le> 0" by (simp add: arctan_le_zero_iff)
        moreover have "atan2 y x = arctan (y / x) + pi" using xneg True by (simp add: atan2_def)
        ultimately show ?thesis using lo pp by linarith
      next
        case yneg: False
        with xneg have "0 < y / x" by (simp add: divide_neg_neg)
        then have "0 < arctan (y / x)" by (simp add: zero_less_arctan_iff)
        moreover have "atan2 y x = arctan (y / x) - pi" using xneg yneg by (simp add: atan2_def)
        ultimately show ?thesis using hi pp by linarith
      qed
    next
      case x0: False
      with False have x0': "x = 0" by simp
      have "atan2 y x = pi / 2 \<or> atan2 y x = - (pi / 2) \<or> atan2 y x = 0"
        using x0' by (simp add: atan2_def)
      with pp show ?thesis by linarith
    qed
  qed
qed

lemma angle_warp_id: "- pi \<le> a \<Longrightarrow> a \<le> pi \<Longrightarrow> angle_warp a = a"
  by (simp add: angle_warp_def)

lemma angle_warp_bounds:
  "- (3 * pi) < a \<Longrightarrow> a \<le> 3 * pi \<Longrightarrow> - pi \<le> angle_warp a \<and> angle_warp a \<le> pi"
  by (simp add: angle_warp_def)

lemma angle_warp_lower: "- (3 * pi) < a \<Longrightarrow> angle_warp a = - pi \<Longrightarrow> a = - pi"
  using pi_gt_zero by (auto simp add: angle_warp_def split: if_splits)

lemma phi_m_bounds: "- pi < phi_m p q \<and> phi_m p q \<le> pi"
proof -
  define t where "t = atan2 (0 - (fst q - fst p)) ((snd q - snd p) - 0)"
  have b: "- pi < t \<and> t \<le> pi" unfolding t_def by (rule atan2_bounds)
  have "phi_m p q = angle_warp (t + 90 * pi / 180)" by (simp add: phi_m_def t_def)
  with b pi_gt_zero show ?thesis by (auto simp add: angle_warp_def)
qed

text \<open>
  Claim C5, as stated: whenever the unwrapped sum \<open>i * resolution - FOV / 2 + theta\<close> lies in
  \<open>(-3 pi, 3 pi]\<close>, the wrapped beam angle \<open>phi\<close> lies in \<open>(-pi, pi]\<close>. This fails for the
  first beam of a full-turn scanner at heading 0: the sum is exactly \<open>- pi\<close>, neither branch
  of the warp fires, and \<open>phi = - pi\<close> is not in the half-open interval.
\<close>

theorem phi_wrap_counterexample:
  "- (3 * pi) < beam_angle full_turn_sensor 0 \<and> beam_angle full_turn_sensor 0 \<le> 3 * pi
   \<and> \<not> (- pi < beam_phi full_turn_sensor 0 \<and> beam_phi full_turn_sensor 0 \<le> pi)"
  by (simp add: beam_phi_def beam_angle_def angle_warp_def full_turn_sensor_def init_def
      origin_pose_def)

text \<open>
  Claim C5, amended: whenever the unwrapped sum lies in \<open>(-3 pi, 3 pi]\<close>, the wrapped beam
  angle \<open>phi\<close> lies in the closed interval \<open>[-pi, pi]\<close>, and it is \<open>- pi\<close> only when the
  unwrapped sum is itself \<open>- pi\<close>.
\<close>

theorem phi_wrap_closed_interval:
  assumes "- (3 * pi) < beam_angle s i_beam" and "beam_angle s i_beam \<le> 3 * pi"
  shows "- pi \<le> beam_phi s i_beam \<and> beam_phi s i_beam \<le> pi
         \<and> (beam_phi s i_beam = - pi \<longrightarrow> beam_angle s i_beam = - pi)"
  using assms angle_warp_bounds [of "beam_angle s i_beam"]
    angle_warp_lower [of "beam_angle s i_beam"]
  by (simp add: beam_phi_def)

theorem phi_wrap_closed_interval_witness:
  "- (3 * pi) < beam_angle scenario_sensor 2 \<and> beam_angle scenario_sensor 2 \<le> 3 * pi
   \<and> - pi \<le> beam_phi scenario_sensor 2 \<and> beam_phi scenario_sensor 2 \<le> pi"
proof -
  have a: "beam_angle scenario_sensor 2 = pi / 2"
    by (simp add: beam_angle_def scenario_sensor_def init_def origin_pose_def)
  have lo: "- (3 * pi) < beam_angle scenario_sensor 2" using pi_gt_zero by (simp add: a)
  have hi: "beam_angle scenario_sensor 2 \<le> 3 * pi" using pi_gt_zero by (simp add: a)
  show ?thesis using lo hi phi_wrap_closed_interval [OF lo hi] by simp
qed

section \<open>The observation array\<close>

text \<open>
  The loop over the beams fills the fresh array column by column; when it ends, row 0 holds
  the noisy ranges and row 1 the noisy bearings of all beams.
\<close>

lemma store_beam_two_rows:
  "store_beam s m g i [r0, r1] =
     [r0[i := beam_distance s m i + normal 0 (sqrt (cov00 (noise_cov s))) (g (2 * i))],
      r1[i := real i * resolution s - FOV s / 2
               + normal 0 (sqrt (cov11 (noise_cov s))) (g (2 * i + 1))]]"
  by (simp add: store_beam_def Let_def)

lemma update_at_boundary:
  assumes "k < length r"
  shows "(map f [0..<k] @ drop k r)[k := f k] = map f [0..<Suc k] @ drop (Suc k) r"
proof -
  have d: "drop k r = r ! k # drop (Suc k) r"
    using assms by (simp add: Cons_nth_drop_Suc)
  have "(map f [0..<k] @ drop k r)[k := f k] = map f [0..<k] @ (drop k r)[0 := f k]"
    by (simp add: list_update_append)
  also have "\<dots> = map f [0..<k] @ f k # drop (Suc k) r"
    by (subst d) simp
  finally show ?thesis by simp
qed

lemma fold_store_beam:
  "k \<le> length r0 \<Longrightarrow> k \<le> length r1 \<Longrightarrow>
   fold (store_beam s m g) [0..<k] [r0, r1] =
     [map (\<lambda>i. beam_distance s m i + normal 0 (sqrt (cov00 (noise_cov s))) (g (2 * i)))
        [0..<k] @ drop k r0,
      map (\<lambda>i. real i * resolution s - FOV s / 2
                 + normal 0 (sqrt (cov11 (noise_cov s))) (g (2 * i + 1)))
        [0..<k] @ drop k r1]"
proof (induction k)
  case 0
  show ?case by simp
next
  case (Suc k)
  define F where "F = (\<lambda>i. beam_distance s m i + normal 0 (sqrt (cov00 (noise_cov s))) (g (2 * i)))"
  define H where "H = (\<lambda>i. real i * resolution s - FOV s / 2
                 + normal 0 (sqrt (cov11 (noise_cov s))) (g (2 * i + 1)))"
  from Suc.prems have k0: "k < length r0" and k1: "k < length r1" by simp_all
  have ih: "fold (store_beam s m g) [0..<k] [r0, r1] =
              [map F [0..<k] @ drop k r0, map H [0..<k] @ drop k r1]"
    using Suc.IH k0 k1 by (simp add: F_def H_def)
  have step: "store_beam s m g k [a, b] = [a[k := F k], b[k := H k]]" for a b
    by (simp add: store_beam_two_rows F_def H_def)
  have "fold (store_beam s m g) [0..<Suc k] [r0, r1] =
        store_beam s m g k (fold (store_beam s m g) [0..<k] [r0, r1])"
    by simp
  also have "\<dots> = [(map F [0..<k] @ drop k r0)[k := F k], (map H [0..<k] @ drop k r1)[k := H k]]"
    by (simp only: ih step)
  also have "\<dots> = [map F [0..<Suc k] @ drop (Suc k) r0, map H [0..<Suc k] @ drop (Suc k) r1]"
    by (simp only: update_at_boundary [OF k0] update_at_boundary [OF k1])
  finally show ?case by (simp only: F_def H_def)
qed

lemma take_observation_rows:
  assumes "resolution s \<noteq> 0" and "0 \<le> n_beams s"
  shows "take_observation s m g =
     Inr [map (\<lambda>i. beam_distance s m i + normal 0 (sqrt (cov00 (noise_cov s))) (g (2 * i)))
            [0..<nat (n_beams s)],
          map (\<lambda>i. real i * resolution s - FOV s / 2
                 + normal 0 (sqrt (cov11 (noise_cov s))) (g (2 * i + 1)))
            [0..<nat (n_beams s)]]"
proof -
  have z: "zeros 2 (nat (n_beams s)) = [replicate (nat (n_beams s)) 0, replicate (nat (n_beams s)) 0]"
    by (simp add: zeros_def numeral_2_eq_2)
  show ?thesis
    using assms by (simp add: take_observation_def z fold_store_beam)
qed

lemma valid_config_runs:
  assumes "0 < FOV s" and "0 < resolution s"
  shows "resolution s \<noteq> 0 \<and> 0 \<le> n_beams s \<and> 0 < n_beams s"
proof -
  have "0 \<le> FOV s / resolution s" using assms by simp
  then have "0 \<le> \<lfloor>FOV s / resolution s\<rfloor>" by simp
  with assms show ?thesis by (simp add: n_beams_def)
qed

section \<open>The closest valid hit\<close>

text \<open>
  The loop over the segments only ever lowers \<open>d\<close>, so what it leaves is a minimum: the
  loop of the source and the wording of the specification give the same range.
\<close>

lemma Min_insert_min:
  assumes "finite S"
  shows "Min (insert (min a b) S) = Min (insert a (insert b S))"
proof (cases "S = {}")
  case True
  then show ?thesis by simp
next
  case False
  with assms show ?thesis by (simp add: min.assoc)
qed

lemma fold_lowering:
  "fold (\<lambda>i d. case c i of None \<Rightarrow> d | Some v \<Rightarrow> if v < d then v else d) xs d0 =
     Min (set (d0 # List.map_filter c xs))"
proof (induction xs arbitrary: d0)
  case Nil
  show ?case by (simp add: List.map_filter_simps)
next
  case (Cons x xs)
  show ?case
  proof (cases "c x")
    case None
    then show ?thesis using Cons.IH by (simp add: List.map_filter_simps)
  next
    case (Some v)
    have m: "(if v < d0 then v else d0) = min d0 v" by (auto simp add: min_def)
    have "fold (\<lambda>i d. case c i of None \<Rightarrow> d | Some v \<Rightarrow> if v < d then v else d) (x # xs) d0 =
          Min (set (min d0 v # List.map_filter c xs))"
      using Some Cons.IH [of "min d0 v"] by (simp add: m)
    also have "\<dots> = Min (insert d0 (insert v (set (List.map_filter c xs))))"
      using Min_insert_min [of "set (List.map_filter c xs)" d0 v] by simp
    finally show ?thesis using Some by (simp add: List.map_filter_simps)
  qed
qed

lemma check_line_valid_hit:
  "check_line phi p e a b seg_d d =
     (case valid_hit phi p e a b seg_d of None \<Rightarrow> d | Some v \<Rightarrow> if v < d then v else d)"
  by (simp add: check_line_def valid_hit_def Let_def split: option.splits)

lemma beam_distance_closest_hit: "beam_distance s m i_beam = closest_hit s m i_beam"
proof -
  have "beam_distance s m i_beam =
        fold (\<lambda>i_line d.
                case valid_hit (beam_phi s i_beam) (pose_x (pose s), pose_y (pose s))
                       (beam_end s i_beam) (m ! i_line) (m ! (i_line + 1))
                       (seg_distance m ! i_line) of
                  None \<Rightarrow> d
                | Some v \<Rightarrow> if v < d then v else d)
          [0..<length m - 1] (max_distance s)"
    by (simp add: beam_distance_def Let_def check_line_valid_hit)
  also have "\<dots> = closest_hit s m i_beam"
    unfolding closest_hit_def valid_hits_def by (rule fold_lowering)
  finally show ?thesis .
qed

lemma distance_nonneg: "0 \<le> distance a b"
  by (simp add: distance_def)

lemma valid_hit_nonneg: "valid_hit phi p e a b seg_d = Some v \<Longrightarrow> 0 \<le> v"
  by (auto simp add: valid_hit_def distance_nonneg split: option.splits if_splits)

lemma valid_hits_nonneg: "v \<in> set (valid_hits s m i_beam) \<Longrightarrow> 0 \<le> v"
  by (auto simp add: valid_hits_def List.map_filter_def valid_hit_nonneg)

lemma beam_distance_range:
  assumes "0 \<le> max_distance s"
  shows "0 \<le> beam_distance s m i_beam \<and> beam_distance s m i_beam \<le> max_distance s"
proof -
  let ?S = "set (max_distance s # valid_hits s m i_beam)"
  have fin: "finite ?S" and ne: "?S \<noteq> {}" by simp_all
  have "Min ?S \<in> ?S" using fin ne by (rule Min_in)
  then have "Min ?S = max_distance s \<or> Min ?S \<in> set (valid_hits s m i_beam)" by simp
  then have lo: "0 \<le> Min ?S"
  proof
    assume "Min ?S = max_distance s"
    with assms show ?thesis by simp
  next
    assume "Min ?S \<in> set (valid_hits s m i_beam)"
    then show ?thesis by (rule valid_hits_nonneg)
  qed
  have hi: "Min ?S \<le> max_distance s" using fin by (rule Min_le) simp
  from lo hi show ?thesis by (simp add: beam_distance_closest_hit closest_hit_def)
qed

section \<open>The wall scenario, evaluated\<close>

text \<open>
  The side beams run parallel to the wall, so their determinant is 0 and the segment is
  skipped; the middle beam meets the wall at \<open>(5, 0)\<close> with \<open>phi = phi_m = 0\<close>.
\<close>

lemma scenario_fields:
  "FOV scenario_sensor = pi" "resolution scenario_sensor = pi / 2"
  "max_distance scenario_sensor = 10" "noise_cov scenario_sensor = zero_cov"
  "pose_x (pose scenario_sensor) = 0" "pose_y (pose scenario_sensor) = 0"
  "pose_theta (pose scenario_sensor) = 0"
  by (simp_all add: scenario_sensor_def init_def origin_pose_def)

lemma scenario_n_beams: "n_beams scenario_sensor = 3"
  by (simp add: n_beams_def scenario_fields)

lemma scenario_phi:
  "beam_phi scenario_sensor 0 = - (pi / 2)"
  "beam_phi scenario_sensor (Suc 0) = 0"
  "beam_phi scenario_sensor 2 = pi / 2"
proof -
  have a: "beam_angle scenario_sensor 0 = - (pi / 2)"
    "beam_angle scenario_sensor (Suc 0) = 0"
    "beam_angle scenario_sensor 2 = pi / 2"
    by (simp_all add: beam_angle_def scenario_fields)
  have b: "- pi \<le> - (pi / 2)" "- (pi / 2) \<le> pi" "- pi \<le> 0" "0 \<le> pi"
    "- pi \<le> pi / 2" "pi / 2 \<le> pi"
    using pi_gt_zero by linarith+
  show "beam_phi scenario_sensor 0 = - (pi / 2)"
    unfolding beam_phi_def a using b by (intro angle_warp_id)
  show "beam_phi scenario_sensor (Suc 0) = 0"
    unfolding beam_phi_def a using b by (intro angle_warp_id)
  show "beam_phi scenario_sensor 2 = pi / 2"
    unfolding beam_phi_def a using b by (intro angle_warp_id)
qed

lemma scenario_end:
  "beam_end scenario_sensor 0 = (0, - 10)"
  "beam_end scenario_sensor (Suc 0) = (10, 0)"
  "beam_end scenario_sensor 2 = (0, 10)"
  by (simp_all add: beam_end_def scenario_phi scenario_fields)

lemma sqrt_25: "sqrt 25 = 5"
  using real_sqrt_abs [of 5] by simp

lemma sqrt_100: "sqrt 100 = 10"
  using real_sqrt_abs [of 10] by simp

lemma scenario_seg_distance: "seg_distance scenario_map = [10]"
  by (simp add: seg_distance_def scenario_map_def distance_def sqrt_100)

lemma scenario_parallel_down: "intersection (5, - 5) (5, 5) (0, 0) (0, - 10) = None"
  by (simp add: intersection_def det_def)

lemma scenario_parallel_up: "intersection (5, - 5) (5, 5) (0, 0) (0, 10) = None"
  by (simp add: intersection_def det_def)

lemma scenario_ahead: "intersection (5, - 5) (5, 5) (0, 0) (10, 0) = Some (5, 0)"
  by (simp add: intersection_def det_def)

lemma scenario_in_segment: "in_segment (5, - 5) (5, 5) 10 (5, 0)"
  by (simp add: in_segment_def distance_def sqrt_25)

lemma scenario_phi_m: "phi_m (0, 0) (5, 0) = 0"
  using pi_gt_zero by (simp add: phi_m_def atan2_def angle_warp_def)

lemma scenario_distance: "distance (0, 0) (5, 0) = 5"
  by (simp add: distance_def sqrt_25)

lemma scenario_check_line:
  "check_line (- (pi / 2)) (0, 0) (0, - 10) (5, - 5) (5, 5) 10 10 = 10"
  "check_line 0 (0, 0) (10, 0) (5, - 5) (5, 5) 10 10 = 5"
  "check_line (pi / 2) (0, 0) (0, 10) (5, - 5) (5, 5) 10 10 = 10"
  by (simp_all add: check_line_def scenario_parallel_down scenario_parallel_up
      scenario_ahead scenario_in_segment scenario_phi_m scenario_distance)

lemma scenario_lines: "[0..<length scenario_map - 1] = [0]"
  "scenario_map ! 0 = (5, - 5)" "scenario_map ! (0 + 1) = (5, 5)"
  by (simp_all add: scenario_map_def)

lemma scenario_beam_distance:
  "beam_distance scenario_sensor scenario_map 0 = 10"
  "beam_distance scenario_sensor scenario_map (Suc 0) = 5"
  "beam_distance scenario_sensor scenario_map 2 = 10"
  by (simp_all only: beam_distance_def Let_def scenario_phi scenario_end scenario_fields
      scenario_seg_distance scenario_lines fold_simps nth_Cons_0 id_apply o_apply
      scenario_check_line)

lemma upt3: "[0..<nat 3] = [0, Suc 0, 2]"
  by (simp add: upt_rec)

lemma scenario_obs: "take_observation scenario_sensor scenario_map g = Inr [[10, 5, 10], [- (pi / 2), 0, pi / 2]]"
proof -
  have r: "resolution scenario_sensor \<noteq> 0" by (simp add: scenario_fields)
  have n: "0 \<le> n_beams scenario_sensor" by (simp add: scenario_n_beams)
  show ?thesis
    unfolding take_observation_rows [OF r n] scenario_n_beams upt3
    by (simp add: scenario_beam_distance scenario_fields zero_cov_def cov00_def cov11_def normal_def)
qed

section \<open>What a call returns\<close>

text \<open>
  The list \<open>valid_hits\<close> holds exactly the distances of the intersection points that
  pass both checks, one for each such segment.
\<close>

lemma valid_hit_iff:
  "valid_hit phi p e a b seg_d = Some v \<longleftrightarrow>
     (\<exists>q. intersection a b p e = Some q \<and> in_segment a b seg_d q
          \<and> sgn phi = sgn (phi_m p q) \<and> v = distance p q)"
  by (auto simp add: valid_hit_def split: option.splits)

lemma set_map_filter_iff: "v \<in> set (List.map_filter f xs) \<longleftrightarrow> (\<exists>x \<in> set xs. f x = Some v)"
  by (induction xs) (auto simp add: List.map_filter_simps split: option.splits)

lemma valid_hits_iff:
  "v \<in> set (valid_hits s m i_beam) \<longleftrightarrow>
     (\<exists>i_line < length m - 1.
        valid_hit (beam_phi s i_beam) (pose_x (pose s), pose_y (pose s)) (beam_end s i_beam)
          (m ! i_line) (m ! (i_line + 1)) (seg_distance m ! i_line) = Some v)"
  by (auto simp add: valid_hits_def set_map_filter_iff)

lemma returned_rows:
  assumes "take_observation s m g = Inr z"
  shows "z = [map (\<lambda>i. beam_distance s m i + normal 0 (sqrt (cov00 (noise_cov s))) (g (2 * i)))
                [0..<nat (n_beams s)],
              map (\<lambda>i. real i * resolution s - FOV s / 2
                     + normal 0 (sqrt (cov11 (noise_cov s))) (g (2 * i + 1)))
                [0..<nat (n_beams s)]]"
proof -
  from assms have r: "resolution s \<noteq> 0" and n: "0 \<le> n_beams s"
    by (auto simp add: take_observation_def split: if_splits)
  from assms show ?thesis unfolding take_observation_rows [OF r n] by simp
qed

section \<open>Ranges and bearings\<close>

text \<open>
  Claim C1: for every map, pose and beam, the range before noise is the minimum of
  \<open>max_distance\<close> and the distances to the intersection points that pass the
  segment-membership check and the direction check; with zero range variance this is the
  value returned in row 0.
\<close>

theorem closest_hit_wins:
  assumes "take_observation s m g = Inr z"
    and "cov00 (noise_cov s) = 0"
    and "i_beam < nat (n_beams s)"
  shows "beam_distance s m i_beam = Min (set (max_distance s # valid_hits s m i_beam))
         \<and> z ! 0 ! i_beam = closest_hit s m i_beam"
proof -
  have a: "beam_distance s m i_beam = closest_hit s m i_beam"
    by (rule beam_distance_closest_hit)
  have "z ! 0 ! i_beam = beam_distance s m i_beam"
    using assms(2,3) by (simp add: returned_rows [OF assms(1)] normal_def)
  with a show ?thesis by (simp add: closest_hit_def)
qed

theorem closest_hit_wins_witness:
  "take_observation scenario_sensor scenario_map (\<lambda>k. 0) = Inr [[10, 5, 10], [- (pi / 2), 0, pi / 2]]
   \<and> cov00 (noise_cov scenario_sensor) = 0
   \<and> 1 < nat (n_beams scenario_sensor)
   \<and> beam_distance scenario_sensor scenario_map 1
        = Min (set (max_distance scenario_sensor # valid_hits scenario_sensor scenario_map 1))
   \<and> [[10, 5, 10], [- (pi / 2), 0, pi / 2]] ! 0 ! 1 = closest_hit scenario_sensor scenario_map 1"
proof -
  have h1: "take_observation scenario_sensor scenario_map (\<lambda>k. 0)
              = Inr [[10, 5, 10], [- (pi / 2), 0, pi / 2]]"
    by (rule scenario_obs)
  have h2: "cov00 (noise_cov scenario_sensor) = 0"
    by (simp add: scenario_fields zero_cov_def cov00_def)
  have h3: "1 < nat (n_beams scenario_sensor)"
    by (simp add: scenario_n_beams)
  show ?thesis using h1 h2 h3 closest_hit_wins [OF h1 h2 h3] by simp
qed

text \<open>
  Claim C2: with \<open>FOV = pi\<close>, \<open>resolution = pi / 2\<close>, \<open>max_distance = 10\<close>, zero noise
  covariance, pose \<open>(0, 0, 0)\<close> and the single segment from \<open>(5, -5)\<close> to \<open>(5, 5)\<close>, the
  call uses three beams and returns the ranges 10, 5, 10 with the bearings
  \<open>- pi / 2\<close>, 0, \<open>pi / 2\<close>.
\<close>

theorem scenario_observation:
  "n_beams scenario_sensor = 3
   \<and> take_observation scenario_sensor scenario_map g
        = Inr [[10, 5, 10], [- (pi / 2), 0, pi / 2]]"
  using scenario_n_beams scenario_obs [of g] by simp

text \<open>
  Claim C3: for \<open>FOV > 0\<close> and \<open>resolution > 0\<close> and every map, the call returns, the beam
  count is \<open>floor (FOV / resolution) + 1\<close>, and the table has 2 rows of that many columns.
\<close>

theorem observation_shape:
  assumes "0 < FOV s" and "0 < resolution s"
  shows "n_beams s = \<lfloor>FOV s / resolution s\<rfloor> + 1
         \<and> (\<exists>z. take_observation s m g = Inr z \<and> length z = 2
                \<and> (\<forall>row \<in> set z. int (length row) = \<lfloor>FOV s / resolution s\<rfloor> + 1))"
proof -
  from valid_config_runs [OF assms] have r: "resolution s \<noteq> 0" and n: "0 \<le> n_beams s"
    by simp_all
  have "int (nat (n_beams s)) = \<lfloor>FOV s / resolution s\<rfloor> + 1"
    using n by (simp add: n_beams_def)
  then show ?thesis
    unfolding take_observation_rows [OF r n] by (simp add: n_beams_def)
qed

theorem observation_shape_witness:
  "0 < FOV scenario_sensor \<and> 0 < resolution scenario_sensor
   \<and> n_beams scenario_sensor = \<lfloor>FOV scenario_sensor / resolution scenario_sensor\<rfloor> + 1
   \<and> (\<exists>z. take_observation scenario_sensor scenario_map (\<lambda>k. 0) = Inr z \<and> length z = 2
          \<and> (\<forall>row \<in> set z.
                int (length row) = \<lfloor>FOV scenario_sensor / resolution scenario_sensor\<rfloor> + 1))"
proof -
  have h1: "0 < FOV scenario_sensor" by (simp add: scenario_fields)
  have h2: "0 < resolution scenario_sensor" by (simp add: scenario_fields)
  show ?thesis using h1 h2 observation_shape [OF h1 h2] by simp
qed

text \<open>
  Claim C4: for every pose and every beam index below the beam count, the bearing in row 1 is
  the nominal body-frame angle \<open>i * resolution - FOV / 2\<close> plus the noise draw alone: it is
  not passed through the angle warp and holds no \<open>theta\<close>, so another pose gives the
  same row.
\<close>

theorem bearing_is_nominal:
  assumes "take_observation s m g = Inr z" and "i_beam < nat (n_beams s)"
  shows "z ! 1 ! i_beam
           = (real i_beam * resolution s - FOV s / 2)
             + sqrt (cov11 (noise_cov s)) * g (2 * i_beam + 1)
         \<and> (\<exists>z'. take_observation (set_pose s p) m g = Inr z' \<and> z' ! 1 = z ! 1)"
proof -
  from assms(1) have r: "resolution s \<noteq> 0" and n: "0 \<le> n_beams s"
    by (auto simp add: take_observation_def split: if_splits)
  have nb: "n_beams (set_pose s p) = n_beams s" by (simp add: n_beams_def set_pose_def)
  have r': "resolution (set_pose s p) \<noteq> 0" using r by (simp add: set_pose_def)
  have n': "0 \<le> n_beams (set_pose s p)" using n by (simp add: nb)
  have a: "z ! 1 ! i_beam
           = (real i_beam * resolution s - FOV s / 2)
             + sqrt (cov11 (noise_cov s)) * g (2 * i_beam + 1)"
    using assms(2) by (simp add: returned_rows [OF assms(1)] normal_def)
  have b: "\<exists>z'. take_observation (set_pose s p) m g = Inr z' \<and> z' ! 1 = z ! 1"
    unfolding take_observation_rows [OF r' n'] returned_rows [OF assms(1)] nb
    by (simp add: set_pose_def)
  from a b show ?thesis by simp
qed

theorem bearing_is_nominal_witness:
  "take_observation scenario_sensor scenario_map (\<lambda>k. 0) = Inr [[10, 5, 10], [- (pi / 2), 0, pi / 2]]
   \<and> 2 < nat (n_beams scenario_sensor)
   \<and> [[10, 5, 10], [- (pi / 2), 0, pi / 2]] ! 1 ! 2
        = (real 2 * resolution scenario_sensor - FOV scenario_sensor / 2)
          + sqrt (cov11 (noise_cov scenario_sensor)) * (\<lambda>k. 0) (2 * 2 + 1)"
proof -
  have h1: "take_observation scenario_sensor scenario_map (\<lambda>k. 0)
              = Inr [[10, 5, 10], [- (pi / 2), 0, pi / 2]]"
    by (rule scenario_obs)
  have h2: "2 < nat (n_beams scenario_sensor)"
    by (simp add: scenario_n_beams)
  show ?thesis using h1 h2 bearing_is_nominal [OF h1 h2] by simp
qed

section \<open>One segment: direction filter and determinant guard\<close>

lemma intersection_None_iff: "intersection a b p e = None \<longleftrightarrow> line_div a b p e = 0"
  by (simp add: intersection_def line_div_def Let_def)

text \<open>
  Claim C6: for an intersection point that lies on the segment, the direction filter lets the
  hit through exactly when \<open>sgn phi_m = sgn phi\<close>, where \<open>phi_m\<close> is the \<open>atan2\<close> bearing
  from the sensor to the point, shifted by 90 degrees and warped once, a value in
  \<open>(-pi, pi]\<close>; for \<open>phi = 0\<close> that is exactly when \<open>phi_m = 0\<close>. A hit that is let through
  and is closer than the candidate \<open>d\<close> replaces it; a hit that is stopped leaves \<open>d\<close>.
\<close>

theorem direction_filter_sign:
  assumes "intersection a b p e = Some q"
    and "in_segment a b seg_d q"
    and "distance p q < d"
  shows "(check_line phi p e a b seg_d d = distance p q \<longleftrightarrow> sgn (phi_m p q) = sgn phi)
         \<and> (check_line phi p e a b seg_d d = d \<longleftrightarrow> sgn (phi_m p q) \<noteq> sgn phi)
         \<and> phi_m p q = angle_warp (atan2 (- (fst q - fst p)) (snd q - snd p) + pi / 2)
         \<and> - pi < phi_m p q \<and> phi_m p q \<le> pi
         \<and> (check_line 0 p e a b seg_d d = distance p q \<longleftrightarrow> phi_m p q = 0)"
proof -
  have c: "check_line x p e a b seg_d d = (if sgn x = sgn (phi_m p q) then distance p q else d)"
    for x
    using assms by (simp add: check_line_def Let_def)
  have ne: "distance p q \<noteq> d" using assms(3) by simp
  have 1: "check_line phi p e a b seg_d d = distance p q \<longleftrightarrow> sgn (phi_m p q) = sgn phi"
    using ne by (auto simp add: c)
  have 2: "check_line phi p e a b seg_d d = d \<longleftrightarrow> sgn (phi_m p q) \<noteq> sgn phi"
    using ne by (auto simp add: c)
  have 3: "phi_m p q = angle_warp (atan2 (- (fst q - fst p)) (snd q - snd p) + pi / 2)"
    by (simp add: phi_m_def)
  have 4: "check_line 0 p e a b seg_d d = distance p q \<longleftrightarrow> phi_m p q = 0"
    using ne by (auto simp add: c sgn_zero_iff)
  from 1 2 3 4 phi_m_bounds [of p q] show ?thesis by simp
qed

theorem direction_filter_sign_witness:
  "intersection (5, - 5) (5, 5) (0, 0) (10, 0) = Some (5, 0)
   \<and> in_segment (5, - 5) (5, 5) 10 (5, 0)
   \<and> distance (0, 0) (5, 0) < 10
   \<and> sgn (phi_m (0, 0) (5, 0)) = sgn (0::real)
   \<and> check_line 0 (0, 0) (10, 0) (5, - 5) (5, 5) 10 10 = distance (0, 0) (5, 0)"
proof -
  have h1: "intersection (5, - 5) (5, 5) (0, 0) (10, 0) = Some (5, 0)" by (rule scenario_ahead)
  have h2: "in_segment (5, - 5) (5, 5) 10 (5, 0)" by (rule scenario_in_segment)
  have h3: "distance (0, 0) (5, 0) < 10" by (simp add: scenario_distance)
  have s: "sgn (phi_m (0, 0) (5, 0)) = sgn (0::real)" by (simp add: scenario_phi_m)
  show ?thesis using h1 h2 h3 s direction_filter_sign [OF h1 h2 h3, of 0] by simp
qed

text \<open>
  Claim C7: the intersection point, and with it the two divisions by the determinant, is
  computed only when the determinant is not 0. When it is 0 (parallel or coincident lines,
  and every segment of length zero) the segment is skipped and leaves the candidate \<open>d\<close>
  as it was.
\<close>

theorem zero_determinant_skipped:
  "(intersection a b p e = None \<longleftrightarrow> line_div a b p e = 0)
   \<and> (line_div a b p e = 0 \<longrightarrow> check_line phi p e a b seg_d d = d)
   \<and> (a = b \<longrightarrow> line_div a b p e = 0)
   \<and> (line_div a b p e \<noteq> 0 \<longrightarrow>
        intersection a b p e =
          Some (det (det a b, det p e) (fst a - fst b, fst p - fst e) / line_div a b p e,
                det (det a b, det p e) (snd a - snd b, snd p - snd e) / line_div a b p e))"
proof -
  have 1: "intersection a b p e = None \<longleftrightarrow> line_div a b p e = 0"
    by (rule intersection_None_iff)
  have 2: "line_div a b p e = 0 \<longrightarrow> check_line phi p e a b seg_d d = d"
  proof
    assume "line_div a b p e = 0"
    with 1 have "intersection a b p e = None" by simp
    then show "check_line phi p e a b seg_d d = d" by (simp add: check_line_def)
  qed
  have 3: "a = b \<longrightarrow> line_div a b p e = 0"
    by (simp add: line_div_def det_def)
  have 4: "line_div a b p e \<noteq> 0 \<longrightarrow>
        intersection a b p e =
          Some (det (det a b, det p e) (fst a - fst b, fst p - fst e) / line_div a b p e,
                det (det a b, det p e) (snd a - snd b, snd p - snd e) / line_div a b p e)"
    by (simp add: intersection_def line_div_def Let_def)
  from 1 2 3 4 show ?thesis by simp
qed

theorem zero_determinant_skipped_witness:
  "line_div (5, - 5) (5, 5) (0, 0) (0, 10) = 0
   \<and> intersection (5, - 5) (5, 5) (0, 0) (0, 10) = None
   \<and> check_line (pi / 2) (0, 0) (0, 10) (5, - 5) (5, 5) 10 10 = 10
   \<and> line_div (3, 4) (3, 4) (0, 0) (10, 0) = 0
   \<and> line_div (5, - 5) (5, 5) (0, 0) (10, 0) \<noteq> 0
   \<and> intersection (5, - 5) (5, 5) (0, 0) (10, 0) = Some (5, 0)"
proof -
  have h1: "line_div (5, - 5) (5, 5) (0, 0) (0, 10) = 0" by (simp add: line_div_def det_def)
  have h2: "line_div (5, - 5) (5, 5) (0, 0) (10, 0) = - 100" by (simp add: line_div_def det_def)
  have a: "intersection (5, - 5) (5, 5) (0, 0) (0, 10) = None"
    and b: "check_line (pi / 2) (0, 0) (0, 10) (5, - 5) (5, 5) 10 10 = 10"
    using h1 zero_determinant_skipped [of "(5, - 5)" "(5, 5)" "(0, 0)" "(0, 10)" "pi / 2" 10 10]
    by simp_all
  have c: "line_div (3, 4) (3, 4) (0, 0) (10, 0) = 0"
    using zero_determinant_skipped [of "(3, 4)" "(3, 4)" "(0, 0)" "(10, 0)" 0 0 10]
    by simp
  have d: "intersection (5, - 5) (5, 5) (0, 0) (10, 0) = Some (5, 0)"
    using h2 zero_determinant_skipped [of "(5, - 5)" "(5, 5)" "(0, 0)" "(10, 0)" 0 10 10]
    by (simp add: det_def)
  from h1 h2 a b c d show ?thesis by simp
qed

section \<open>Degenerate maps and the range interval\<close>

text \<open>
  Claim C8: for a map with fewer than two points and zero range variance, on a sensor whose
  beam count is defined (\<open>resolution\<close> not 0, count not negative, as for every \<open>FOV > 0\<close>
  and \<open>resolution > 0\<close>), the call does not fail: there is no segment to test and every
  range returned is \<open>max_distance\<close>.
\<close>

theorem short_map_max_distance:
  assumes "length m < 2"
    and "cov00 (noise_cov s) = 0"
    and "resolution s \<noteq> 0"
    and "0 \<le> n_beams s"
  shows "seg_distance m = [] \<and> [0..<length m - 1] = []
         \<and> (\<exists>z. take_observation s m g = Inr z \<and> length z = 2
                \<and> length (z ! 0) = nat (n_beams s)
                \<and> (\<forall>r \<in> set (z ! 0). r = max_distance s))"
proof -
  from assms(1) have l: "[0..<length m - 1] = []" by simp
  have sd: "seg_distance m = []"
    using assms(1) by (cases m) (simp_all add: seg_distance_def)
  have bd: "beam_distance s m i = max_distance s" for i
    unfolding beam_distance_def Let_def l by simp
  show ?thesis
    unfolding take_observation_rows [OF assms(3,4)]
    using assms(1,2) by (simp add: sd bd normal_def)
qed

theorem short_map_max_distance_witness:
  "length [(1::real, 2::real)] < 2
   \<and> cov00 (noise_cov scenario_sensor) = 0
   \<and> resolution scenario_sensor \<noteq> 0
   \<and> 0 \<le> n_beams scenario_sensor
   \<and> seg_distance [(1, 2)] = []
   \<and> (\<exists>z. take_observation scenario_sensor [(1, 2)] (\<lambda>k. 1) = Inr z \<and> length z = 2
          \<and> length (z ! 0) = nat (n_beams scenario_sensor))"
proof -
  have h1: "length [(1::real, 2::real)] < 2" by simp
  have h2: "cov00 (noise_cov scenario_sensor) = 0"
    by (simp add: scenario_fields zero_cov_def cov00_def)
  have h3: "resolution scenario_sensor \<noteq> 0" by (simp add: scenario_fields)
  have h4: "0 \<le> n_beams scenario_sensor" by (simp add: scenario_n_beams)
  show ?thesis
    using h1 h2 h3 h4 short_map_max_distance [OF h1 h2 h3 h4, of "\<lambda>k. 1"] by blast
qed

text \<open>
  Claim C10: every range returned with zero range variance lies in \<open>[0, max_distance]\<close>,
  whatever the map holds, as soon as \<open>max_distance\<close> is not negative: the candidate starts
  at \<open>max_distance\<close> and is only ever replaced by a smaller Euclidean distance.
\<close>

theorem range_within_limits:
  assumes "take_observation s m g = Inr z"
    and "cov00 (noise_cov s) = 0"
    and "0 \<le> max_distance s"
  shows "\<forall>r \<in> set (z ! 0). 0 \<le> r \<and> r \<le> max_distance s"
  using assms(2) beam_distance_range [OF assms(3)]
  by (simp add: returned_rows [OF assms(1)] normal_def)

theorem range_within_limits_witness:
  "take_observation scenario_sensor scenario_map (\<lambda>k. 0) = Inr [[10, 5, 10], [- (pi / 2), 0, pi / 2]]
   \<and> cov00 (noise_cov scenario_sensor) = 0
   \<and> 0 \<le> max_distance scenario_sensor
   \<and> 0 \<le> [[10, 5, 10], [- (pi / 2), 0, pi / 2]] ! 0 ! 1
   \<and> [[10, 5, 10], [- (pi / 2), 0, pi / 2]] ! 0 ! 1 \<le> max_distance scenario_sensor"
proof -
  have h1: "take_observation scenario_sensor scenario_map (\<lambda>k. 0)
              = Inr [[10, 5, 10], [- (pi / 2), 0, pi / 2]]"
    by (rule scenario_obs)
  have h2: "cov00 (noise_cov scenario_sensor) = 0"
    by (simp add: scenario_fields zero_cov_def cov00_def)
  have h3: "0 \<le> max_distance scenario_sensor" by (simp add: scenario_fields)
  show ?thesis using h1 h2 h3 range_within_limits [OF h1 h2 h3] by (simp add: scenario_fields)
qed

section \<open>What a call leaves unchanged\<close>

text \<open>
  On the heap, an iteration of the beam loop appends the array of its \<open>phi\<close> and writes one
  column of \<open>z\<close>; nothing below the address of \<open>z\<close> is touched, and what the iteration
  computes is what the first model computes from the values the sensor object and the map
  address stand for.
\<close>

lemma read_old: "a < length h0 \<Longrightarrow> read_cell (h0 @ xs) a r c = read_cell h0 a r c"
  by (simp add: read_cell_def nth_append)

lemma map_of_heap_old: "m_ref < length h0 \<Longrightarrow> map_of_heap (h0 @ xs) m_ref = map_of_heap h0 m_ref"
  by (simp add: map_of_heap_def nth_append)

lemma warp_in_place_fresh: "warp_in_place (length h) (h @ [[[a]]]) = h @ [[[angle_warp a]]]"
  by (simp add: warp_in_place_def read_cell_def write_cell_def angle_warp_def)

lemma write_z_row0:
  "write_cell (length h0) 0 i v (h0 @ [r0, r1] # ps) = h0 @ [r0[i := v], r1] # ps"
  by (simp add: write_cell_def)

lemma write_z_row1:
  "write_cell (length h0) 1 i v (h0 @ [r0, r1] # ps) = h0 @ [r0, r1[i := v]] # ps"
  by (simp add: write_cell_def)

lemma scan_lines_beam_distance:
  assumes "obj_pose self < length h0" and "m_ref < length h0"
    and "h = h0 @ xs @ [[[beam_phi (sensor_of self h0) i]]]"
    and "phi_ref = length h0 + length xs"
  shows "scan_lines self h m_ref (seg_distance (map_of_heap h0 m_ref)) phi_ref
           = beam_distance (sensor_of self h0) (map_of_heap h0 m_ref) i"
proof -
  have phi: "read_cell h phi_ref 0 0 = beam_phi (sensor_of self h0) i"
    using assms(3,4) by (simp add: read_cell_def nth_append)
  have px: "read_cell h (obj_pose self) 0 0 = pose_x (pose (sensor_of self h0))"
    and py: "read_cell h (obj_pose self) 1 0 = pose_y (pose (sensor_of self h0))"
    using assms(1,3) by (simp_all add: read_old sensor_of_def)
  have m: "map_of_heap h m_ref = map_of_heap h0 m_ref"
    using assms(2,3) by (simp add: map_of_heap_old)
  have md: "obj_max_distance self = max_distance (sensor_of self h0)"
    by (simp add: sensor_of_def)
  show ?thesis
    unfolding scan_lines_def beam_distance_def beam_end_def Let_def phi px py m md
    by simp
qed

lemma beam_iteration_step:
  assumes "obj_pose self < length h0" and "obj_noise_cov self < length h0"
    and "m_ref < length h0"
  shows "beam_iteration m_ref (length h0) (seg_distance (map_of_heap h0 m_ref)) g i
           \<lparr>obj = self, mem = h0 @ [r0, r1] # ps\<rparr>
         = \<lparr>obj = self, mem = h0 @
              [r0[i := beam_distance (sensor_of self h0) (map_of_heap h0 m_ref) i
                        + normal 0 (sqrt (cov00 (noise_cov (sensor_of self h0)))) (g (2 * i))],
               r1[i := real i * resolution (sensor_of self h0) - FOV (sensor_of self h0) / 2
                        + normal 0 (sqrt (cov11 (noise_cov (sensor_of self h0)))) (g (2 * i + 1))]]
              # (ps @ [[[beam_phi (sensor_of self h0) i]]])\<rparr>"
proof -
  let ?s = "sensor_of self h0"
  let ?h = "h0 @ [r0, r1] # ps"
  have raw: "real i * obj_resolution self - obj_FOV self / 2
               + read_cell ?h (obj_pose self) 2 0 = beam_angle ?s i"
    using assms(1) by (simp add: read_old beam_angle_def sensor_of_def)
  have al: "alloc [[beam_angle ?s i]] ?h = (length ?h, ?h @ [[[beam_angle ?s i]]])"
    by (simp add: alloc_def)
  have wp: "warp_in_place (length ?h) (?h @ [[[beam_angle ?s i]]]) = ?h @ [[[beam_phi ?s i]]]"
    by (simp only: warp_in_place_fresh beam_phi_def)
  have h2: "?h @ [[[beam_phi ?s i]]] = h0 @ ([r0, r1] # ps) @ [[[beam_phi ?s i]]]" by simp
  have d: "scan_lines self (?h @ [[[beam_phi ?s i]]]) m_ref
             (seg_distance (map_of_heap h0 m_ref)) (length ?h)
           = beam_distance ?s (map_of_heap h0 m_ref) i"
    by (rule scan_lines_beam_distance [OF assms(1) assms(3) h2]) simp
  have c00: "read_cell (?h @ [c]) (obj_noise_cov self) 0 0 = cov00 (noise_cov ?s)" for c
    using assms(2) by (simp add: read_old sensor_of_def cov00_def)
  have w0: "write_cell (length h0) 0 i v (?h @ [c]) = h0 @ [r0[i := v], r1] # ps @ [c]"
    for v c using write_z_row0 [of h0 i v r0 r1 "ps @ [c]"] by simp
  have c11: "read_cell (h0 @ [a, r1] # ps @ [c]) (obj_noise_cov self) 1 1 = cov11 (noise_cov ?s)"
    for a c using assms(2) by (simp add: read_old sensor_of_def cov11_def)
  have w1: "write_cell (length h0) 1 i v (h0 @ [a, r1] # ps @ [c]) = h0 @ [a, r1[i := v]] # ps @ [c]"
    for v c a using write_z_row1 [of h0 i v a r1 "ps @ [c]"] by simp
  have fr: "obj_resolution self = resolution ?s" "obj_FOV self = FOV ?s"
    by (simp_all add: sensor_of_def)
  show ?thesis
    unfolding beam_iteration_def Let_def
    by (simp only: world.select_convs world.update_convs raw al prod.case wp d c00 w0 c11 w1)
       (simp only: fr)
qed

lemma fold_beam_iteration:
  assumes "obj_pose self < length h0" and "obj_noise_cov self < length h0"
    and "m_ref < length h0"
  shows "k \<le> length r0 \<Longrightarrow> k \<le> length r1 \<Longrightarrow>
     fold (beam_iteration m_ref (length h0) (seg_distance (map_of_heap h0 m_ref)) g) [0..<k]
       \<lparr>obj = self, mem = h0 @ [[r0, r1]]\<rparr>
     = \<lparr>obj = self, mem = h0 @
          [map (\<lambda>i. beam_distance (sensor_of self h0) (map_of_heap h0 m_ref) i
                   + normal 0 (sqrt (cov00 (noise_cov (sensor_of self h0)))) (g (2 * i)))
             [0..<k] @ drop k r0,
           map (\<lambda>i. real i * resolution (sensor_of self h0) - FOV (sensor_of self h0) / 2
                   + normal 0 (sqrt (cov11 (noise_cov (sensor_of self h0)))) (g (2 * i + 1)))
             [0..<k] @ drop k r1]
          # map (\<lambda>i. [[beam_phi (sensor_of self h0) i]]) [0..<k]\<rparr>"
proof (induction k)
  case 0
  show ?case by simp
next
  case (Suc k)
  define F where "F = (\<lambda>i. beam_distance (sensor_of self h0) (map_of_heap h0 m_ref) i
                   + normal 0 (sqrt (cov00 (noise_cov (sensor_of self h0)))) (g (2 * i)))"
  define H where "H = (\<lambda>i. real i * resolution (sensor_of self h0) - FOV (sensor_of self h0) / 2
                   + normal 0 (sqrt (cov11 (noise_cov (sensor_of self h0)))) (g (2 * i + 1)))"
  define P where "P = (\<lambda>i. [[beam_phi (sensor_of self h0) i]])"
  define step where
    "step = beam_iteration m_ref (length h0) (seg_distance (map_of_heap h0 m_ref)) g"
  from Suc.prems have k0: "k < length r0" and k1: "k < length r1" by simp_all
  have ih: "fold step [0..<k] \<lparr>obj = self, mem = h0 @ [[r0, r1]]\<rparr>
            = \<lparr>obj = self, mem = h0 @ [map F [0..<k] @ drop k r0, map H [0..<k] @ drop k r1]
                                  # map P [0..<k]\<rparr>"
    using Suc.IH k0 k1 by (simp add: F_def H_def P_def step_def)
  have st: "step k \<lparr>obj = self, mem = h0 @ [a, b] # ps\<rparr>
            = \<lparr>obj = self, mem = h0 @ [a[k := F k], b[k := H k]] # (ps @ [P k])\<rparr>" for a b ps
    unfolding step_def F_def H_def P_def by (rule beam_iteration_step [OF assms])
  have "fold step [0..<Suc k] \<lparr>obj = self, mem = h0 @ [[r0, r1]]\<rparr>
        = step k (fold step [0..<k] \<lparr>obj = self, mem = h0 @ [[r0, r1]]\<rparr>)"
    by simp
  also have "\<dots> = \<lparr>obj = self, mem = h0 @
                 [(map F [0..<k] @ drop k r0)[k := F k], (map H [0..<k] @ drop k r1)[k := H k]]
                 # (map P [0..<k] @ [P k])\<rparr>"
    by (simp only: ih st)
  also have "\<dots> = \<lparr>obj = self, mem = h0 @
                 [map F [0..<Suc k] @ drop (Suc k) r0, map H [0..<Suc k] @ drop (Suc k) r1]
                 # map P [0..<Suc k]\<rparr>"
    by (simp only: update_at_boundary [OF k0] update_at_boundary [OF k1]) simp
  finally show ?case by (simp only: F_def H_def P_def step_def)
qed

lemma take_observation_heap_run:
  assumes "obj_pose self < length h0" and "obj_noise_cov self < length h0"
    and "m_ref < length h0"
    and "obj_resolution self \<noteq> 0" and "0 \<le> n_beams (sensor_of self h0)"
  shows "take_observation_heap m_ref g \<lparr>obj = self, mem = h0\<rparr>
     = (Inr (length h0),
        \<lparr>obj = self, mem = h0 @
          [map (\<lambda>i. beam_distance (sensor_of self h0) (map_of_heap h0 m_ref) i
                   + normal 0 (sqrt (cov00 (noise_cov (sensor_of self h0)))) (g (2 * i)))
             [0..<nat (n_beams (sensor_of self h0))],
           map (\<lambda>i. real i * resolution (sensor_of self h0) - FOV (sensor_of self h0) / 2
                   + normal 0 (sqrt (cov11 (noise_cov (sensor_of self h0)))) (g (2 * i + 1)))
             [0..<nat (n_beams (sensor_of self h0))]]
          # map (\<lambda>i. [[beam_phi (sensor_of self h0) i]])
              [0..<nat (n_beams (sensor_of self h0))]\<rparr>)"
proof -
  define n where "n = nat (n_beams (sensor_of self h0))"
  have nb: "\<lfloor>obj_FOV self / obj_resolution self\<rfloor> + 1 = n_beams (sensor_of self h0)"
    by (simp add: n_beams_def sensor_of_def)
  have z: "zeros 2 n = [replicate n 0, replicate n 0]"
    by (simp add: zeros_def numeral_2_eq_2)
  have f: "fold (beam_iteration m_ref (length h0) (seg_distance (map_of_heap h0 m_ref)) g) [0..<n]
             \<lparr>obj = self, mem = h0 @ [[replicate n 0, replicate n 0]]\<rparr>
           = \<lparr>obj = self, mem = h0 @
          [map (\<lambda>i. beam_distance (sensor_of self h0) (map_of_heap h0 m_ref) i
                   + normal 0 (sqrt (cov00 (noise_cov (sensor_of self h0)))) (g (2 * i)))
             [0..<n],
           map (\<lambda>i. real i * resolution (sensor_of self h0) - FOV (sensor_of self h0) / 2
                   + normal 0 (sqrt (cov11 (noise_cov (sensor_of self h0)))) (g (2 * i + 1)))
             [0..<n]]
          # map (\<lambda>i. [[beam_phi (sensor_of self h0) i]]) [0..<n]\<rparr>"
    using fold_beam_iteration [OF assms(1,2,3), of n "replicate n 0" "replicate n 0" g] by simp
  show ?thesis
    using assms(4,5)
    unfolding take_observation_heap_def Let_def n_def [symmetric]
    by (simp add: nb alloc_def z f n_def [symmetric])
qed

lemma sensor_of_old:
  assumes "obj_pose self < length h0" and "obj_noise_cov self < length h0"
    and "obj_last_z self < length h0"
  shows "sensor_of self (h0 @ xs) = sensor_of self h0"
  using assms by (simp add: sensor_of_def read_old nth_append)

lemma scenario_world_eq:
  "scenario_world =
     \<lparr>obj = \<lparr>obj_FOV = pi, obj_resolution = pi / 2, obj_max_distance = 10,
              obj_noise_cov = 1, obj_pose = 0, obj_last_z = 3\<rparr>,
      mem = [[[0], [0], [0]], [[0, 0], [0, 0]], [[5, 5], [- 5, 5]], []]\<rparr>"
  by (simp add: scenario_world_def construct_def alloc_def scenario_heap_def)

lemma scenario_world_sensor:
  "sensor_of (obj scenario_world) (mem scenario_world) = scenario_sensor"
  by (simp add: scenario_world_eq sensor_of_def read_cell_def scenario_sensor_def init_def
      zero_cov_def origin_pose_def)

lemma scenario_world_map: "map_of_heap (mem scenario_world) 2 = scenario_map"
  by (simp add: scenario_world_eq map_of_heap_def scenario_map_def)

lemma scenario_world_wf: "wf_world scenario_world 2"
  by (simp add: scenario_world_eq wf_world_def)

lemma scenario_heap_run:
  "take_observation_heap 2 g scenario_world =
     (Inr 4,
      \<lparr>obj = obj scenario_world,
       mem = mem scenario_world @
         [[10, 5, 10], [- (pi / 2), 0, pi / 2]]
         # map (\<lambda>i. [[beam_phi scenario_sensor i]]) [0..<3]\<rparr>)"
proof -
  let ?self = "obj scenario_world" and ?h0 = "mem scenario_world"
  have w: "scenario_world = \<lparr>obj = ?self, mem = ?h0\<rparr>" by simp
  have len: "length ?h0 = 4" by (simp add: scenario_world_eq)
  have refs: "obj_pose ?self < length ?h0" "obj_noise_cov ?self < length ?h0" "2 < length ?h0"
    by (simp_all add: scenario_world_eq)
  have res: "obj_resolution ?self \<noteq> 0" by (simp add: scenario_world_eq)
  have nb: "0 \<le> n_beams (sensor_of ?self ?h0)"
    by (simp add: scenario_world_sensor scenario_n_beams)
  have u: "[0..<3] = [0, Suc 0, 2]" by (simp add: upt_rec)
  have "take_observation_heap 2 g \<lparr>obj = ?self, mem = ?h0\<rparr> =
     (Inr 4,
      \<lparr>obj = ?self,
       mem = ?h0 @ [[10, 5, 10], [- (pi / 2), 0, pi / 2]]
         # map (\<lambda>i. [[beam_phi scenario_sensor i]]) [0..<3]\<rparr>)"
    unfolding take_observation_heap_run [OF refs res nb]
      scenario_world_sensor scenario_world_map len scenario_n_beams
    by (simp add: u scenario_beam_distance scenario_fields zero_cov_def cov00_def cov11_def
        normal_def)
  then show ?thesis unfolding w [symmetric] .
qed

text \<open>
  Claim C9, as stated: when the call returns, the last-observation cache of the sensor holds
  the returned observation. On the wall scenario the call returns the new array at address 4,
  which holds the three beams, while the field \<open>last_z\<close> still refers to the array at
  address 3, the empty array of the constructor.
\<close>

theorem cache_counterexample:
  "fst (take_observation_heap 2 (\<lambda>k. 0) scenario_world) = Inr 4
   \<and> mem (snd (take_observation_heap 2 (\<lambda>k. 0) scenario_world)) ! 4
       = [[10, 5, 10], [- (pi / 2), 0, pi / 2]]
   \<and> obj_last_z (obj (snd (take_observation_heap 2 (\<lambda>k. 0) scenario_world))) = 3
   \<and> mem (snd (take_observation_heap 2 (\<lambda>k. 0) scenario_world)) ! 3 = []"
  unfolding scenario_heap_run by (simp add: scenario_world_eq)

text \<open>
  Claim C9, amended: when the call returns, the sensor object has the fields it had (the
  three floats and the references to \<open>noise_cov\<close>, the pose and \<open>last_z\<close>), and every array
  that existed before the call, among them the map, the pose, the covariance and the cache
  \<open>last_z\<close>, holds what it held: the call writes only into arrays it allocates itself. So
  the sensor and the map stand for the same values after the call as before it, the result
  is the one of \<open>take_observation\<close> on these values, and the returned array is a new one,
  not the cache.
\<close>

theorem call_writes_only_new_arrays:
  fixes w :: world and m_ref :: addr and g :: noise
  defines "r \<equiv> fst (take_observation_heap m_ref g w)"
    and "w' \<equiv> snd (take_observation_heap m_ref g w)"
  assumes "wf_world w m_ref"
  shows "obj w' = obj w
     \<and> take (length (mem w)) (mem w') = mem w
     \<and> sensor_of (obj w') (mem w') = sensor_of (obj w) (mem w)
     \<and> map_of_heap (mem w') m_ref = map_of_heap (mem w) m_ref
     \<and> mem w' ! obj_last_z (obj w') = mem w ! obj_last_z (obj w)
     \<and> (case r of
           Inl e \<Rightarrow>
             take_observation (sensor_of (obj w) (mem w)) (map_of_heap (mem w) m_ref) g = Inl e
             \<and> w' = w
         | Inr z_ref \<Rightarrow>
             take_observation (sensor_of (obj w) (mem w)) (map_of_heap (mem w) m_ref) g
               = Inr (mem w' ! z_ref)
             \<and> z_ref = length (mem w) \<and> obj_last_z (obj w') \<noteq> z_ref)"
proof -
  let ?self = "obj w" and ?h0 = "mem w"
  let ?s = "sensor_of ?self ?h0"
  have w: "w = \<lparr>obj = ?self, mem = ?h0\<rparr>" by simp
  from assms(3) have refs: "obj_pose ?self < length ?h0" "obj_noise_cov ?self < length ?h0"
      "m_ref < length ?h0"
    and lz: "obj_last_z ?self < length ?h0"
    by (simp_all add: wf_world_def)
  have nb: "\<lfloor>obj_FOV ?self / obj_resolution ?self\<rfloor> + 1 = n_beams ?s"
    by (simp add: n_beams_def sensor_of_def)
  have rs: "resolution ?s = obj_resolution ?self" by (simp add: sensor_of_def)
  show ?thesis
  proof (cases "obj_resolution ?self = 0")
    case True
    then have "take_observation_heap m_ref g w = (Inl ZeroDivisionError, w)"
      by (simp add: take_observation_heap_def)
    moreover have "take_observation ?s (map_of_heap ?h0 m_ref) g = Inl ZeroDivisionError"
      using True by (simp add: take_observation_def rs)
    ultimately show ?thesis by (simp add: r_def w'_def)
  next
    case res: False
    show ?thesis
    proof (cases "n_beams ?s < 0")
      case True
      then have "take_observation_heap m_ref g w = (Inl ValueError, w)"
        using res by (simp add: take_observation_heap_def Let_def nb)
      moreover have "take_observation ?s (map_of_heap ?h0 m_ref) g = Inl ValueError"
        using True res by (simp add: take_observation_def rs)
      ultimately show ?thesis by (simp add: r_def w'_def)
    next
      case False
      then have n: "0 \<le> n_beams ?s" by simp
      have rs': "resolution ?s \<noteq> 0" using res by (simp add: rs)
      note run = take_observation_heap_run [OF refs res n, of g]
      have run': "take_observation_heap m_ref g w = (Inr (length ?h0),
        \<lparr>obj = ?self, mem = ?h0 @
          [map (\<lambda>i. beam_distance ?s (map_of_heap ?h0 m_ref) i
                   + normal 0 (sqrt (cov00 (noise_cov ?s))) (g (2 * i)))
             [0..<nat (n_beams ?s)],
           map (\<lambda>i. real i * resolution ?s - FOV ?s / 2
                   + normal 0 (sqrt (cov11 (noise_cov ?s))) (g (2 * i + 1)))
             [0..<nat (n_beams ?s)]]
          # map (\<lambda>i. [[beam_phi ?s i]]) [0..<nat (n_beams ?s)]\<rparr>)"
        using run unfolding w [symmetric] .
      show ?thesis
        unfolding r_def w'_def run' take_observation_rows [OF rs' n]
        using refs lz by (simp add: sensor_of_old map_of_heap_old nth_append)
    qed
  qed
qed

theorem call_writes_only_new_arrays_witness:
  "wf_world scenario_world 2
   \<and> obj (snd (take_observation_heap 2 (\<lambda>k. 0) scenario_world)) = obj scenario_world
   \<and> take (length (mem scenario_world)) (mem (snd (take_observation_heap 2 (\<lambda>k. 0) scenario_world)))
       = mem scenario_world
   \<and> map_of_heap (mem (snd (take_observation_heap 2 (\<lambda>k. 0) scenario_world))) 2
       = map_of_heap (mem scenario_world) 2"
proof -
  have h: "wf_world scenario_world 2" by (rule scenario_world_wf)
  show ?thesis using h call_writes_only_new_arrays [OF h, of "\<lambda>k. 0"] by blast
qed

end
